theory Spec2Isabelle
  imports Complex_Main
begin

section \<open>Values the browser hands to the uploader\<close>

text \<open>
  A \<open>File\<close> object, as far as \<open>static/main.js\<close> reads it: \<open>file.name\<close>, \<open>file.size\<close>
  (a byte count) and \<open>file.type\<close> (the MIME type). Strings are byte strings.
\<close>

record js_file =
  file_name :: string
  file_size :: nat
  file_type :: string

text \<open>
  A parsed JSON value, the result of \<open>response.json()\<close>. A number carries the exact value
  of the parsed double; an object is the list of its own properties, read with \<open>map_of\<close>.
\<close>

datatype json =
    JNull
  | JBool bool
  | JNum rat
  | JStr string
  | JArr "json list"
  | JObj "(string \<times> json) list"

text \<open>
  A settled promise: resolved with a value, or rejected with an \<open>Error\<close> whose
  \<open>message\<close> is the string.
\<close>

datatype 'a settled = Resolved 'a | Rejected string

text \<open>
  The \<open>Response\<close> of \<open>fetch\<close>: its status code and what \<open>response.json()\<close> settles to
  (rejected when the body is not JSON). \<open>response.ok\<close> is true for the codes 200 to 299.
\<close>

record response =
  status :: nat
  json_body :: "json settled"

definition ok :: "response \<Rightarrow> bool" where
  "ok r = (200 \<le> status r \<and> status r \<le> 299)"

text \<open>The call \<open>fetch(url, {method, body: formData})\<close>; the form data is a list of fields.\<close>

record request =
  req_url :: string
  req_method :: string
  req_body :: "(string \<times> js_file) list"

text \<open>
  What the source leaves to the JavaScript engine: the string conversion of a value that
  is not a string (\<open>new Error(x)\<close> converts \<open>x\<close>; the conversion of an object may itself
  throw), and the text of the \<open>TypeError\<close> the engine raises for a property read on
  \<open>null\<close> or \<open>undefined\<close> and for a call of something that is not a function. The
  string names the source expression at fault.
\<close>

datatype type_error =
    PropertyOfNull string
  | PropertyOfUndefined string
  | NotAFunction string

record engine =
  ToString :: "json \<Rightarrow> string settled"
  TypeError_message :: "type_error \<Rightarrow> string"


section \<open>The page and the uploader object\<close>

text \<open>
  \<open>innerHTML\<close> values are the instances of the template literals of the source, kept as
  the template with the values spliced into its holes:
  \<^item> \<open>EmptyMarkup\<close> is \<open>''\<close>;
  \<^item> \<open>ImgElement f\<close> is the \<open>img\<close> element whose \<open>src\<close> is the data URL read from \<open>f\<close>
    (\<open>createFilePreview\<close>, the \<open>onload\<close> handler);
  \<^item> \<open>NonImagePreview n\<close> is the \<open>non-image-preview\<close> block around \<open>${file.name}\<close>;
  \<^item> \<open>ResultDetails resultClass resultIcon resultColor prediction\<close> is the
    \<open>result-details\<close> block of \<open>showResults\<close>: class \<open>result-details ${resultClass}\<close>, icon
    \<open>fas ${resultIcon}\<close> coloured \<open>${resultColor}\<close>, and the paragraph (coloured
    \<open>${resultColor}\<close>, styled \<open>text-transform: capitalize\<close>) holding \<open>${prediction}\<close>.
\<close>

datatype markup =
    EmptyMarkup
  | ImgElement js_file
  | NonImagePreview string
  | ResultDetails string string string string

text \<open>
  \<open>fileSize.textContent\<close> is either text of the page or \<open>formatFileSize(bytes)\<close>. That
  function computes with floating point (\<open>Math.log\<close>, \<open>toFixed\<close>, \<open>parseFloat\<close>); the
  model keeps the byte count it was applied to.
\<close>

datatype size_text = PageText string | FormatFileSize nat

text \<open>A child of \<open>alertContainer\<close>. \<open>alert_id\<close> is the identity of the DOM node.\<close>

record alert =
  alert_id :: nat
  className :: string
  textContent :: string

text \<open>
  The fields of \<open>MedicalImageUploader\<close>, the properties of the elements it holds that the
  code reads or writes, and the effects it leaves with the browser:
  \<open>timeouts\<close> are the pending \<open>setTimeout(() => alertDiv.remove(), ms)\<close> calls, as
  (ms, alert), \<open>pendingReads\<close> the files a \<open>FileReader\<close> is still reading, \<open>fetches\<close>
  every request issued so far and \<open>console_error\<close> the messages logged.
  \<open>fileInput_files\<close> is the selection of the file input (\<open>fileInput.value = ''\<close> empties
  it), \<open>progressFill_width\<close> the percentage of \<open>style.width\<close>.
\<close>

record uploader =
  currentFile :: "js_file option"
  maxFileSize :: nat
  allowedFormats :: "string list"
  uploadArea_dragOver :: bool
  fileInput_files :: "js_file list"
  fileInfo_display :: string
  fileName_textContent :: string
  fileSize_textContent :: size_text
  filePreview_innerHTML :: markup
  analyzeBtn_disabled :: bool
  progressContainer_display :: string
  progressFill_width :: nat
  progressText_textContent :: string
  resultsCard_display :: string
  resultsContent_innerHTML :: markup
  alertContainer :: "alert list"
  nextAlert :: nat
  timeouts :: "(nat \<times> nat) list"
  pendingReads :: "js_file list"
  fetches :: "request list"
  console_error :: "string list"

text \<open>
  The constructor, applied to the page as loaded: it sets the three fields of the object
  and leaves the elements as the page has them.
\<close>

definition constructor :: "uploader \<Rightarrow> uploader" where
  "constructor pg =
     pg\<lparr>currentFile := None,
         maxFileSize := 50 * 1024 * 1024,
         allowedFormats := [''png'', ''jpg'', ''jpeg'', ''gif'', ''bmp'', ''tiff'']\<rparr>"


section \<open>Small methods\<close>

definition showAlert :: "string \<Rightarrow> string \<Rightarrow> uploader \<Rightarrow> uploader" where
  "showAlert message type s =
     s\<lparr>alertContainer := alertContainer s @
          [\<lparr>alert_id = nextAlert s, className = ''alert alert-'' @ type, textContent = message\<rparr>],
       nextAlert := Suc (nextAlert s),
       timeouts := timeouts s @ [(5000, nextAlert s)]\<rparr>"

text \<open>The timer of an alert fires: \<open>alertDiv.remove()\<close>.\<close>

definition timeout_fires :: "nat \<Rightarrow> uploader \<Rightarrow> uploader" where
  "timeout_fires a s =
     s\<lparr>alertContainer := filter (\<lambda>x. alert_id x \<noteq> a) (alertContainer s),
       timeouts := filter (\<lambda>t. snd t \<noteq> a) (timeouts s)\<rparr>"

definition showProgress :: "uploader \<Rightarrow> uploader" where
  "showProgress s = s\<lparr>progressContainer_display := ''block''\<rparr>"

definition updateProgress :: "nat \<Rightarrow> string \<Rightarrow> uploader \<Rightarrow> uploader" where
  "updateProgress percentage text s =
     s\<lparr>progressFill_width := percentage, progressText_textContent := text\<rparr>"

definition hideProgress :: "uploader \<Rightarrow> uploader" where
  "hideProgress s = s\<lparr>progressContainer_display := ''none''\<rparr>"

definition hideResults :: "uploader \<Rightarrow> uploader" where
  "hideResults s = s\<lparr>resultsCard_display := ''none''\<rparr>"

definition enableAnalyzeButton :: "uploader \<Rightarrow> uploader" where
  "enableAnalyzeButton s = s\<lparr>analyzeBtn_disabled := False\<rparr>"

definition handleDragOver :: "uploader \<Rightarrow> uploader" where
  "handleDragOver s = s\<lparr>uploadArea_dragOver := True\<rparr>"

definition handleDragLeave :: "uploader \<Rightarrow> uploader" where
  "handleDragLeave s = s\<lparr>uploadArea_dragOver := False\<rparr>"


section \<open>Selecting and removing a file\<close>

datatype validation = Valid | Invalid string

definition validateFile :: "uploader \<Rightarrow> js_file \<Rightarrow> validation" where
  "validateFile s f =
     (if file_size f > maxFileSize s then Invalid ''File size exceeds 50MB limit.''
      else Valid)"

definition displayFileInfo :: "js_file \<Rightarrow> uploader \<Rightarrow> uploader" where
  "displayFileInfo f s =
     s\<lparr>fileName_textContent := file_name f,
       fileSize_textContent := FormatFileSize (file_size f),
       fileInfo_display := ''block''\<rparr>"

definition startsWith :: "string \<Rightarrow> string \<Rightarrow> bool" where
  "startsWith s p = (take (length p) s = p)"

text \<open>
  An image starts a \<open>FileReader\<close>; the preview changes when the read completes
  (\<open>reader_onload\<close>). Any other file gets the placeholder at once.
\<close>

definition createFilePreview :: "js_file \<Rightarrow> uploader \<Rightarrow> uploader" where
  "createFilePreview f s =
     (if startsWith (file_type f) ''image/''
      then s\<lparr>pendingReads := pendingReads s @ [f]\<rparr>
      else s\<lparr>filePreview_innerHTML := NonImagePreview (file_name f)\<rparr>)"

definition reader_onload :: "js_file \<Rightarrow> uploader \<Rightarrow> uploader" where
  "reader_onload f s =
     s\<lparr>filePreview_innerHTML := ImgElement f, pendingReads := remove1 f (pendingReads s)\<rparr>"

definition processFile :: "js_file \<Rightarrow> uploader \<Rightarrow> uploader" where
  "processFile f s =
     (case validateFile s f of
        Invalid message \<Rightarrow> showAlert message ''error'' s
      | Valid \<Rightarrow>
          hideResults (enableAnalyzeButton (createFilePreview f
            (displayFileInfo f (s\<lparr>currentFile := Some f\<rparr>)))))"

definition handleFileSelect :: "js_file list \<Rightarrow> uploader \<Rightarrow> uploader" where
  "handleFileSelect files s = (case files of [] \<Rightarrow> s | f # _ \<Rightarrow> processFile f s)"

definition handleFileDrop :: "js_file list \<Rightarrow> uploader \<Rightarrow> uploader" where
  "handleFileDrop files s =
     (let s1 = s\<lparr>uploadArea_dragOver := False\<rparr>
      in case files of [] \<Rightarrow> s1 | f # _ \<Rightarrow> processFile f s1)"

definition removeFile :: "uploader \<Rightarrow> uploader" where
  "removeFile s =
     hideResults (hideProgress
       (s\<lparr>currentFile := None,
          fileInput_files := [],
          fileInfo_display := ''none'',
          analyzeBtn_disabled := True\<rparr>))
       \<lparr>filePreview_innerHTML := EmptyMarkup\<rparr>"


section \<open>Rendering a prediction\<close>

text \<open>
  \<open>toLowerCase\<close> on the letters A to Z. JavaScript also lower-cases letters outside
  ASCII, none of which becomes a letter of \<open>notumor\<close>, so the comparison below decides as
  the source's does.
\<close>

definition toLowerCase_char :: "char \<Rightarrow> char" where
  "toLowerCase_char c =
     (case map_of (zip ''ABCDEFGHIJKLMNOPQRSTUVWXYZ'' ''abcdefghijklmnopqrstuvwxyz'') c of
        Some l \<Rightarrow> l
      | None \<Rightarrow> c)"

definition toLowerCase :: "string \<Rightarrow> string" where
  "toLowerCase s = map toLowerCase_char s"

text \<open>
  \<open>showResults(prediction)\<close>, the argument being a JSON value or \<open>undefined\<close> (\<open>None\<close>).
  \<open>prediction.toLowerCase()\<close> is the first statement: on anything but a string it throws
  a \<open>TypeError\<close> before an element is touched (\<open>Inl\<close> carries its message).
\<close>

definition showResults :: "engine \<Rightarrow> json option \<Rightarrow> uploader \<Rightarrow> string + uploader" where
  "showResults E prediction s =
     (case prediction of
        None \<Rightarrow> Inl (TypeError_message E (PropertyOfUndefined ''prediction''))
      | Some JNull \<Rightarrow> Inl (TypeError_message E (PropertyOfNull ''prediction''))
      | Some (JStr p) \<Rightarrow>
          (let isTumor = (toLowerCase p \<noteq> ''notumor'');
               resultClass = (if isTumor then ''tumor'' else ''notumor'');
               resultIcon = (if isTumor then ''fa-exclamation-triangle'' else ''fa-check-circle'');
               resultColor = (if isTumor then ''var(--warning)'' else ''var(--success)'')
           in Inr (s\<lparr>resultsContent_innerHTML :=
                        ResultDetails resultClass resultIcon resultColor p,
                      resultsCard_display := ''block''\<rparr>))
      | Some _ \<Rightarrow> Inl (TypeError_message E (NotAFunction ''prediction.toLowerCase'')))"


section \<open>Analysing the selected file\<close>

text \<open>
  Reading the property \<open>k\<close> (\<open>error\<close> or \<open>prediction\<close>) of a parsed body held in the
  variable \<open>var\<close>: a \<open>TypeError\<close> on \<open>null\<close>, the own property of an object,
  \<open>undefined\<close> (\<open>None\<close>) otherwise.
\<close>

definition get_prop :: "engine \<Rightarrow> string \<Rightarrow> json \<Rightarrow> string \<Rightarrow> string + json option" where
  "get_prop E var v k =
     (case v of
        JNull \<Rightarrow> Inl (TypeError_message E (PropertyOfNull var))
      | JObj kvs \<Rightarrow> Inr (map_of kvs k)
      | _ \<Rightarrow> Inr None)"

definition truthy :: "json option \<Rightarrow> bool" where
  "truthy x =
     (case x of
        None \<Rightarrow> False
      | Some JNull \<Rightarrow> False
      | Some (JBool b) \<Rightarrow> b
      | Some (JNum q) \<Rightarrow> q \<noteq> 0
      | Some (JStr t) \<Rightarrow> t \<noteq> []
      | Some _ \<Rightarrow> True)"

text \<open>
  The message the \<open>catch\<close> block reads after \<open>throw new Error(x)\<close>: \<open>x\<close> itself when it
  is a string, else its string conversion, or the message of the exception that the
  conversion raised in place of the \<open>Error\<close>.
\<close>

definition Error_message :: "engine \<Rightarrow> json option \<Rightarrow> string" where
  "Error_message E x =
     (case x of
        None \<Rightarrow> []
      | Some (JStr m) \<Rightarrow> m
      | Some v \<Rightarrow> (case ToString E v of Resolved m \<Rightarrow> m | Rejected m \<Rightarrow> m))"

text \<open>
  \<open>throw new Error(errorData.error || 'Server error during analysis.')\<close>, as the message
  that reaches the \<open>catch\<close> block.
\<close>

definition server_error :: "engine \<Rightarrow> json \<Rightarrow> string" where
  "server_error E errorData =
     (case get_prop E ''errorData'' errorData ''error'' of
        Inl m \<Rightarrow> m
      | Inr e \<Rightarrow>
          Error_message E
            (if truthy e then e else Some (JStr ''Server error during analysis.'')))"

text \<open>The \<open>catch\<close> block followed by the \<open>finally\<close> block.\<close>

definition catch_finally :: "string \<Rightarrow> uploader \<Rightarrow> uploader" where
  "catch_finally message s =
     (let s1 = hideProgress s;
          s2 = s1\<lparr>console_error := console_error s1 @ [message]\<rparr>;
          s3 = showAlert (''Analysis failed: '' @ message) ''error'' s2
      in s3\<lparr>analyzeBtn_disabled := False\<rparr>)"

text \<open>
  \<open>analyzeFile\<close> is an \<open>async\<close> function: it runs in segments, each ending at an
  \<open>await\<close> or with the call. A segment returns the page and what the call now waits
  for (\<open>None\<close> when the call is over).
\<close>

datatype await = AwaitFetch | AwaitJson response | AwaitDelay json

text \<open>From the call to \<open>await fetch(...)\<close>.\<close>

definition analyzeFile_begin :: "uploader \<Rightarrow> uploader \<times> await option" where
  "analyzeFile_begin s =
     (case currentFile s of
        None \<Rightarrow> (showAlert ''No file selected for analysis'' ''error'' s, None)
      | Some f \<Rightarrow>
          (let s1 = showProgress s;
               s2 = s1\<lparr>analyzeBtn_disabled := True\<rparr>;
               formData = [(''file'', f)];
               s3 = updateProgress 30 ''Uploading to secure server...'' s2
           in (s3\<lparr>fetches := fetches s3 @
                    [\<lparr>req_url = ''/predict'', req_method = ''POST'', req_body = formData\<rparr>]\<rparr>,
               Some AwaitFetch)))"

text \<open>From the settling of \<open>fetch\<close> to \<open>await response.json()\<close>.\<close>

definition analyzeFile_fetched :: "response settled \<Rightarrow> uploader \<Rightarrow> uploader \<times> await option" where
  "analyzeFile_fetched outcome s =
     (case outcome of
        Rejected m \<Rightarrow> (catch_finally m s, None)
      | Resolved r \<Rightarrow>
          (updateProgress 80 ''AI model is analyzing the scan...'' s, Some (AwaitJson r)))"

text \<open>From the settling of \<open>response.json()\<close> (either of the two) to \<open>await this.delay(500)\<close>.\<close>

definition analyzeFile_parsed :: "engine \<Rightarrow> response \<Rightarrow> uploader \<Rightarrow> uploader \<times> await option" where
  "analyzeFile_parsed E r s =
     (case json_body r of
        Rejected m \<Rightarrow> (catch_finally m s, None)
      | Resolved v \<Rightarrow>
          (if \<not> ok r then (catch_finally (server_error E v) s, None)
           else (updateProgress 100 ''Analysis complete!'' s, Some (AwaitDelay v))))"

text \<open>From the end of the delay to the end of the call.\<close>

definition analyzeFile_delayed :: "engine \<Rightarrow> json \<Rightarrow> uploader \<Rightarrow> uploader" where
  "analyzeFile_delayed E data s =
     (let s1 = hideProgress s
      in case get_prop E ''data'' data ''prediction'' of
           Inl m \<Rightarrow> catch_finally m s1
         | Inr prediction \<Rightarrow>
             (case showResults E prediction s1 of
                Inl m \<Rightarrow> catch_finally m s1
              | Inr s2 \<Rightarrow>
                  (showAlert ''Analysis completed successfully!'' ''success'' s2)
                    \<lparr>analyzeBtn_disabled := False\<rparr>))"

text \<open>
  One call of \<open>analyzeFile\<close> run to its end with no other handler in between;
  \<open>outcome\<close> is what \<open>fetch\<close> settles to.
\<close>

definition analyzeFile :: "engine \<Rightarrow> response settled \<Rightarrow> uploader \<Rightarrow> uploader" where
  "analyzeFile E outcome s =
     (case analyzeFile_begin s of
        (s1, None) \<Rightarrow> s1
      | (s1, Some _) \<Rightarrow>
          (case analyzeFile_fetched outcome s1 of
             (s2, Some (AwaitJson r)) \<Rightarrow>
               (case analyzeFile_parsed E r s2 of
                  (s3, Some (AwaitDelay data)) \<Rightarrow> analyzeFile_delayed E data s3
                | (s3, _) \<Rightarrow> s3)
           | (s2, _) \<Rightarrow> s2))"


section \<open>The event loop\<close>

text \<open>
  The page together with the calls of \<open>analyzeFile\<close> that are suspended at an \<open>await\<close>.
  The browser runs one handler at a time. The events are those of the listeners of
  \<open>bindEvents\<close> (\<open>change\<close> on the file input and \<open>drop\<close> with their file lists,
  \<open>dragover\<close>, \<open>dragleave\<close>, the clicks on the remove and the analyze button; the click
  on the upload area only opens the file dialog), the settling of what a suspended call
  waits for (the call is named by its position in \<open>calls\<close>), the load of a
  \<open>FileReader\<close> and the timer of a notification. \<open>step\<close> is \<open>None\<close> where the
  browser cannot deliver the event: it dispatches no click to a disabled button, and a
  promise settles only for a call that waits for it.
\<close>

record world =
  page :: uploader
  calls :: "await list"

datatype event =
    Change "js_file list"
  | Drop "js_file list"
  | DragOver
  | DragLeave
  | ClickRemove
  | ClickAnalyze
  | FetchSettled nat "response settled"
  | JsonSettled nat
  | DelayElapsed nat
  | ReaderLoaded js_file
  | TimeoutFired nat

definition resume :: "nat \<Rightarrow> uploader \<times> await option \<Rightarrow> world \<Rightarrow> world" where
  "resume i res w =
     (case res of
        (s, None) \<Rightarrow> \<lparr>page = s, calls = take i (calls w) @ drop (Suc i) (calls w)\<rparr>
      | (s, Some a) \<Rightarrow> \<lparr>page = s, calls = (calls w)[i := a]\<rparr>)"

definition step :: "engine \<Rightarrow> event \<Rightarrow> world \<Rightarrow> world option" where
  "step E e w =
     (case e of
        Change files \<Rightarrow>
          Some (w\<lparr>page := handleFileSelect files ((page w)\<lparr>fileInput_files := files\<rparr>)\<rparr>)
      | Drop files \<Rightarrow> Some (w\<lparr>page := handleFileDrop files (page w)\<rparr>)
      | DragOver \<Rightarrow> Some (w\<lparr>page := handleDragOver (page w)\<rparr>)
      | DragLeave \<Rightarrow> Some (w\<lparr>page := handleDragLeave (page w)\<rparr>)
      | ClickRemove \<Rightarrow> Some (w\<lparr>page := removeFile (page w)\<rparr>)
      | ClickAnalyze \<Rightarrow>
          (if analyzeBtn_disabled (page w) then None
           else (case analyzeFile_begin (page w) of
                   (s, None) \<Rightarrow> Some (w\<lparr>page := s\<rparr>)
                 | (s, Some a) \<Rightarrow> Some \<lparr>page = s, calls = calls w @ [a]\<rparr>))
      | FetchSettled i outcome \<Rightarrow>
          (if i < length (calls w) then
             (case calls w ! i of
                AwaitFetch \<Rightarrow> Some (resume i (analyzeFile_fetched outcome (page w)) w)
              | _ \<Rightarrow> None)
           else None)
      | JsonSettled i \<Rightarrow>
          (if i < length (calls w) then
             (case calls w ! i of
                AwaitJson r \<Rightarrow> Some (resume i (analyzeFile_parsed E r (page w)) w)
              | _ \<Rightarrow> None)
           else None)
      | DelayElapsed i \<Rightarrow>
          (if i < length (calls w) then
             (case calls w ! i of
                AwaitDelay data \<Rightarrow> Some (resume i (analyzeFile_delayed E data (page w), None) w)
              | _ \<Rightarrow> None)
           else None)
      | ReaderLoaded f \<Rightarrow>
          (if f \<in> set (pendingReads (page w)) then Some (w\<lparr>page := reader_onload f (page w)\<rparr>)
           else None)
      | TimeoutFired a \<Rightarrow>
          (if a \<in> snd ` set (timeouts (page w)) then Some (w\<lparr>page := timeout_fires a (page w)\<rparr>)
           else None))"

fun run :: "engine \<Rightarrow> event list \<Rightarrow> world \<Rightarrow> world option" where
  "run E [] w = Some w"
| "run E (e # es) w = (case step E e w of None \<Rightarrow> None | Some w' \<Rightarrow> run E es w')"

text \<open>The uploader after \<open>DOMContentLoaded\<close> on the page \<open>pg\<close>: no call is suspended.\<close>

definition loaded :: "uploader \<Rightarrow> world" where
  "loaded pg = \<lparr>page = constructor pg, calls = []\<rparr>"

text \<open>The requests in flight: the calls that wait for \<open>fetch\<close> or for the body.\<close>

definition in_flight :: "world \<Rightarrow> nat" where
  "in_flight w =
     length (filter (\<lambda>a. case a of AwaitDelay _ \<Rightarrow> False | _ \<Rightarrow> True) (calls w))"


text \<open>
  The events after the click that carry one call of \<open>analyzeFile\<close> to its end when
  \<open>fetch\<close> settles to \<open>outcome\<close>.
\<close>

definition settle :: "response settled \<Rightarrow> event list" where
  "settle outcome =
     (case outcome of
        Rejected m \<Rightarrow> [FetchSettled 0 outcome]
      | Resolved r \<Rightarrow>
          (case json_body r of
             Rejected m \<Rightarrow> [FetchSettled 0 outcome, JsonSettled 0]
           | Resolved v \<Rightarrow>
               (if ok r then [FetchSettled 0 outcome, JsonSettled 0, DelayElapsed 0]
                else [FetchSettled 0 outcome, JsonSettled 0])))"

text \<open>
  At most one call is suspended, and the analyze button is disabled while it is;
  an event that hands a file to \<open>processFile\<close>; and a sequence of events in which no
  such event comes while a call is suspended.
\<close>

definition one_call :: "world \<Rightarrow> bool" where
  "one_call w = (calls w = [] \<or> (length (calls w) = 1 \<and> analyzeBtn_disabled (page w)))"

definition selects :: "event \<Rightarrow> bool" where
  "selects e = (case e of Change _ \<Rightarrow> True | Drop _ \<Rightarrow> True | _ \<Rightarrow> False)"

fun undisturbed :: "engine \<Rightarrow> event list \<Rightarrow> world \<Rightarrow> bool" where
  "undisturbed E [] w = True"
| "undisturbed E (e # es) w =
     ((selects e \<longrightarrow> calls w = []) \<and>
      (case step E e w of None \<Rightarrow> True | Some w' \<Rightarrow> undisturbed E es w'))"


section \<open>Terms of the specification\<close>

text \<open>
  The Empty state of the controller: no selected file, an empty preview, the analyze
  button disabled, progress and results hidden.
\<close>

definition is_Empty :: "uploader \<Rightarrow> bool" where
  "is_Empty s =
     (currentFile s = None \<and> filePreview_innerHTML s = EmptyMarkup \<and>
      analyzeBtn_disabled s \<and> progressContainer_display s = ''none'' \<and>
      resultsCard_display s = ''none'')"

text \<open>
  The classes of the notifications a handler added, taking the page from \<open>s\<close> to \<open>s'\<close>,
  oldest first.
\<close>

definition added :: "uploader \<Rightarrow> uploader \<Rightarrow> string list" where
  "added s s' = map className (drop (length (alertContainer s)) (alertContainer s'))"

text \<open>
  How a call of \<open>analyzeFile\<close> that issued a request ends, from the page \<open>s\<close> before its
  last segment to the page \<open>s'\<close> after it: progress hidden, the analyze button enabled,
  the earlier notifications kept, and one notification added. That one is the success
  notification, and the results panel is shown; or it is an error notification, and the
  results panel and its content are what they were.
\<close>

definition ended :: "uploader \<Rightarrow> uploader \<Rightarrow> bool" where
  "ended s s' =
    (progressContainer_display s' = ''none'' \<and> \<not> analyzeBtn_disabled s' \<and>
     take (length (alertContainer s)) (alertContainer s') = alertContainer s \<and>
     ((added s s' = [''alert alert-success''] \<and> resultsCard_display s' = ''block'') \<or>
      (added s s' = [''alert alert-error''] \<and>
       resultsCard_display s' = resultsCard_display s \<and>
       resultsContent_innerHTML s' = resultsContent_innerHTML s)))"

text \<open>
  Equality of two strings up to the case of their letters, by character codes: two
  characters are the same letter when they are equal or one is a capital A to Z (codes 65
  to 90) and the other is the character 32 codes above it.
\<close>

definition is_upper :: "char \<Rightarrow> bool" where
  "is_upper c = (65 \<le> (of_char c :: nat) \<and> (of_char c :: nat) \<le> 90)"

definition same_letter :: "char \<Rightarrow> char \<Rightarrow> bool" where
  "same_letter c d =
     (c = d \<or> (is_upper c \<and> (of_char d :: nat) = of_char c + 32) \<or>
      (is_upper d \<and> (of_char c :: nat) = of_char d + 32))"

definition caseless_eq :: "string \<Rightarrow> string \<Rightarrow> bool" where
  "caseless_eq xs ys = list_all2 same_letter xs ys"

text \<open>
  What the browser paints for the label of a result. \<open>showResults\<close> puts the label in a
  paragraph with the inline style \<open>text-transform: capitalize\<close>, under which the first
  letter of a word is painted in upper case and the rest as written. This is given for a
  label that is one word of the letters A to Z and a to z; for any other label
  (several words, or characters that the assignment to \<open>innerHTML\<close> reads as markup)
  \<open>painted_label\<close> says nothing (\<open>None\<close>).
\<close>

definition toUpperCase_char :: "char \<Rightarrow> char" where
  "toUpperCase_char c =
     (case map_of (zip ''abcdefghijklmnopqrstuvwxyz'' ''ABCDEFGHIJKLMNOPQRSTUVWXYZ'') c of
        Some u \<Rightarrow> u
      | None \<Rightarrow> c)"

definition is_letter :: "char \<Rightarrow> bool" where
  "is_letter c = (c \<in> set ''ABCDEFGHIJKLMNOPQRSTUVWXYZabcdefghijklmnopqrstuvwxyz'')"

definition one_word :: "string \<Rightarrow> bool" where
  "one_word p = (p \<noteq> [] \<and> list_all is_letter p)"

definition capitalize :: "string \<Rightarrow> string" where
  "capitalize w = (case w of [] \<Rightarrow> [] | c # cs \<Rightarrow> toUpperCase_char c # cs)"

definition painted_label :: "markup \<Rightarrow> string option" where
  "painted_label m =
     (case m of
        ResultDetails _ _ _ p \<Rightarrow> (if one_word p then Some (capitalize p) else None)
      | _ \<Rightarrow> None)"

text \<open>
  The text of the error notification for a response that is not 2xx, by the shape of
  its body: the message of the rejection when the body is not JSON, the engine's
  \<open>TypeError\<close> when it is \<open>null\<close>, the \<open>error\<close> property when that is a string and not
  empty, its string conversion when it is another truthy value, and the fixed message
  in every other case.
\<close>

definition failure_text :: "engine \<Rightarrow> response \<Rightarrow> string" where
  "failure_text E r =
     ''Analysis failed: '' @
     (case json_body r of
        Rejected m \<Rightarrow> m
      | Resolved JNull \<Rightarrow> TypeError_message E (PropertyOfNull ''errorData'')
      | Resolved (JObj kvs) \<Rightarrow>
          (case map_of kvs ''error'' of
             Some (JStr e) \<Rightarrow> (if e = [] then ''Server error during analysis.'' else e)
           | Some v \<Rightarrow>
               (if truthy (Some v)
                then (case ToString E v of Resolved m \<Rightarrow> m | Rejected m \<Rightarrow> m)
                else ''Server error during analysis.'')
           | None \<Rightarrow> ''Server error during analysis.'')
      | Resolved _ \<Rightarrow> ''Server error during analysis.'')"




section \<open>Sample inputs\<close>

text \<open>
  An engine that words its \<open>TypeError\<close>s as Firefox does; the examples convert no value
  other than a plain object to a string.
\<close>

definition sample_engine :: engine where
  "sample_engine =
     \<lparr>ToString = (\<lambda>v. Resolved ''[object Object]''),
      TypeError_message = (\<lambda>t. case t of
          PropertyOfNull x \<Rightarrow> x @ '' is null''
        | PropertyOfUndefined x \<Rightarrow> x @ '' is undefined''
        | NotAFunction x \<Rightarrow> x @ '' is not a function'')\<rparr>"

text \<open>A page with every panel hidden, nothing selected and the analyze button disabled.\<close>

definition blank_page :: uploader where
  "blank_page =
     \<lparr>currentFile = None, maxFileSize = 0, allowedFormats = [],
      uploadArea_dragOver = False, fileInput_files = [], fileInfo_display = ''none'',
      fileName_textContent = [], fileSize_textContent = PageText [],
      filePreview_innerHTML = EmptyMarkup, analyzeBtn_disabled = True,
      progressContainer_display = ''none'', progressFill_width = 0,
      progressText_textContent = [], resultsCard_display = ''none'',
      resultsContent_innerHTML = EmptyMarkup, alertContainer = [], nextAlert = 0,
      timeouts = [], pendingReads = [], fetches = [], console_error = []\<rparr>"

text \<open>A PNG of 2 MiB and a file of 60 MiB.\<close>

definition scan_png :: js_file where
  "scan_png = \<lparr>file_name = ''scan.png'', file_size = 2097152, file_type = ''image/png''\<rparr>"

definition big_file :: js_file where
  "big_file = \<lparr>file_name = ''volume.nii'', file_size = 62914560, file_type = []\<rparr>"

text \<open>The uploader with \<open>scan_png\<close> selected on the blank page.\<close>

definition selected :: uploader where
  "selected = processFile scan_png (constructor blank_page)"

text \<open>Responses: two predictions, a 2xx body without one, and three failures.\<close>

definition reply :: "nat \<Rightarrow> json \<Rightarrow> response settled" where
  "reply code v = Resolved \<lparr>status = code, json_body = Resolved v\<rparr>"

definition not_json :: "nat \<Rightarrow> string \<Rightarrow> response settled" where
  "not_json code m = Resolved \<lparr>status = code, json_body = Rejected m\<rparr>"



section \<open>Selection and removal\<close>

lemmas small_defs = showAlert_def showProgress_def updateProgress_def hideProgress_def
  hideResults_def enableAnalyzeButton_def

lemmas select_defs = processFile_def validateFile_def displayFileInfo_def
  createFilePreview_def startsWith_def constructor_def

lemma constructor_maxFileSize: "maxFileSize (constructor pg) = 52428800"
  by (simp add: constructor_def)

lemma selected_file: "currentFile selected = Some scan_png"
  by (simp add: selected_def select_defs small_defs scan_png_def blank_page_def)

text \<open>
  C3: a file larger than \<open>maxFileSize\<close> is rejected by \<open>processFile\<close>. The page changes
  in the notification alone: an \<open>alert-error\<close> with the size-limit text is appended and
  a timer of 5000 ms is set for it, whose firing removes it again. The selected file, the
  preview (and the pending reads that would change it), the enablement of the analyze
  button and the visibility of the results are as before, and no request is issued.
\<close>

theorem processFile_rejects_oversized:
  "maxFileSize s < file_size f \<Longrightarrow>
   processFile f s =
     s\<lparr>alertContainer := alertContainer s @
          [\<lparr>alert_id = nextAlert s, className = ''alert alert-error'',
            textContent = ''File size exceeds 50MB limit.''\<rparr>],
       nextAlert := Suc (nextAlert s),
       timeouts := timeouts s @ [(5000, nextAlert s)]\<rparr> \<and>
   currentFile (processFile f s) = currentFile s \<and>
   filePreview_innerHTML (processFile f s) = filePreview_innerHTML s \<and>
   pendingReads (processFile f s) = pendingReads s \<and>
   analyzeBtn_disabled (processFile f s) = analyzeBtn_disabled s \<and>
   resultsCard_display (processFile f s) = resultsCard_display s \<and>
   fetches (processFile f s) = fetches s \<and>
   alertContainer (timeout_fires (nextAlert s) (processFile f s)) =
     filter (\<lambda>x. alert_id x \<noteq> nextAlert s) (alertContainer s)"
  by (simp add: processFile_def validateFile_def showAlert_def timeout_fires_def)

theorem processFile_rejects_oversized_witness:
  "maxFileSize (constructor blank_page) < file_size big_file \<and>
   map textContent (alertContainer (processFile big_file (constructor blank_page))) =
     [''File size exceeds 50MB limit.''] \<and>
   timeouts (processFile big_file (constructor blank_page)) = [(5000, 0)] \<and>
   currentFile (processFile big_file (constructor blank_page)) = None \<and>
   analyzeBtn_disabled (processFile big_file (constructor blank_page)) \<and>
   fetches (processFile big_file (constructor blank_page)) = [] \<and>
   alertContainer (timeout_fires 0 (processFile big_file (constructor blank_page))) = []"
proof -
  have h: "maxFileSize (constructor blank_page) < file_size big_file"
    by (simp add: constructor_def big_file_def)
  show ?thesis
    using h processFile_rejects_oversized [OF h]
    by (simp add: constructor_def blank_page_def timeout_fires_def)
qed

text \<open>
  C4: a file no larger than \<open>maxFileSize\<close> is accepted whatever its name and MIME type
  are: it becomes \<open>currentFile\<close>, the analyze button is enabled and the results are
  hidden. \<open>allowedFormats\<close> plays no part: with any other list in its place
  \<open>processFile\<close> does the same.
\<close>

theorem processFile_accepts_within_limit:
  "file_size f \<le> maxFileSize s \<Longrightarrow>
   currentFile (processFile f s) = Some f \<and>
   \<not> analyzeBtn_disabled (processFile f s) \<and>
   resultsCard_display (processFile f s) = ''none'' \<and>
   processFile f (s\<lparr>allowedFormats := fmts\<rparr>) = (processFile f s)\<lparr>allowedFormats := fmts\<rparr>"
  by (simp add: select_defs small_defs)

theorem processFile_accepts_within_limit_witness:
  "file_size (scan_png\<lparr>file_name := ''scan.exe'', file_type := ''application/x-msdownload''\<rparr>)
     \<le> maxFileSize (constructor blank_page) \<and>
   currentFile (processFile
       (scan_png\<lparr>file_name := ''scan.exe'', file_type := ''application/x-msdownload''\<rparr>)
       (constructor blank_page)) =
     Some (scan_png\<lparr>file_name := ''scan.exe'', file_type := ''application/x-msdownload''\<rparr>) \<and>
   \<not> analyzeBtn_disabled (processFile
       (scan_png\<lparr>file_name := ''scan.exe'', file_type := ''application/x-msdownload''\<rparr>)
       (constructor blank_page)) \<and>
   resultsCard_display (processFile
       (scan_png\<lparr>file_name := ''scan.exe'', file_type := ''application/x-msdownload''\<rparr>)
       (constructor blank_page)) = ''none''"
proof -
  have h: "file_size (scan_png\<lparr>file_name := ''scan.exe'',
      file_type := ''application/x-msdownload''\<rparr>) \<le> maxFileSize (constructor blank_page)"
    by (simp add: constructor_def scan_png_def)
  show ?thesis
    using h processFile_accepts_within_limit [OF h] by simp
qed

text \<open>
  C7: \<open>removeFile\<close> leads to the Empty state from any state, and a second call changes
  nothing more. It is a plain sequence of assignments with no failing step, so it is
  defined on every state, the Empty one included.
\<close>

theorem removeFile_Empty_idempotent:
  "is_Empty (removeFile s) \<and> removeFile (removeFile s) = removeFile s"
  by (simp add: removeFile_def is_Empty_def hideResults_def hideProgress_def)


section \<open>Rendering\<close>

lemma toLowerCase_examples:
  "toLowerCase ''notumor'' = ''notumor''"
  "toLowerCase ''NoTumor'' = ''notumor''"
  "toLowerCase ''Glioma'' = ''glioma''"
  by (simp_all add: toLowerCase_def toLowerCase_char_def)

text \<open>
  The comparison of \<open>showResults\<close>, the lower-cased label against \<open>notumor\<close>, decides
  equality up to case.
\<close>

lemma of_char_upper:
  "(of_char c = (78::nat)) = (c = CHR ''N'')"
  "(of_char c = (79::nat)) = (c = CHR ''O'')"
  "(of_char c = (84::nat)) = (c = CHR ''T'')"
  "(of_char c = (85::nat)) = (c = CHR ''U'')"
  "(of_char c = (77::nat)) = (c = CHR ''M'')"
  "(of_char c = (82::nat)) = (c = CHR ''R'')"
  using of_char_eq_iff [where ?'a = nat, of c "CHR ''N''"]
    of_char_eq_iff [where ?'a = nat, of c "CHR ''O''"]
    of_char_eq_iff [where ?'a = nat, of c "CHR ''T''"]
    of_char_eq_iff [where ?'a = nat, of c "CHR ''U''"]
    of_char_eq_iff [where ?'a = nat, of c "CHR ''M''"]
    of_char_eq_iff [where ?'a = nat, of c "CHR ''R''"]
  by simp_all

lemma same_letter_notumor:
  "same_letter c CHR ''n'' = (c = CHR ''n'' \<or> c = CHR ''N'')"
  "same_letter c CHR ''o'' = (c = CHR ''o'' \<or> c = CHR ''O'')"
  "same_letter c CHR ''t'' = (c = CHR ''t'' \<or> c = CHR ''T'')"
  "same_letter c CHR ''u'' = (c = CHR ''u'' \<or> c = CHR ''U'')"
  "same_letter c CHR ''m'' = (c = CHR ''m'' \<or> c = CHR ''M'')"
  "same_letter c CHR ''r'' = (c = CHR ''r'' \<or> c = CHR ''R'')"
  by (auto simp: same_letter_def is_upper_def of_char_upper)

lemma toLowerCase_char_notumor:
  "(toLowerCase_char c = CHR ''n'') = (c = CHR ''n'' \<or> c = CHR ''N'')"
  "(toLowerCase_char c = CHR ''o'') = (c = CHR ''o'' \<or> c = CHR ''O'')"
  "(toLowerCase_char c = CHR ''t'') = (c = CHR ''t'' \<or> c = CHR ''T'')"
  "(toLowerCase_char c = CHR ''u'') = (c = CHR ''u'' \<or> c = CHR ''U'')"
  "(toLowerCase_char c = CHR ''m'') = (c = CHR ''m'' \<or> c = CHR ''M'')"
  "(toLowerCase_char c = CHR ''r'') = (c = CHR ''r'' \<or> c = CHR ''R'')"
  by (auto simp: toLowerCase_char_def split: if_splits)

lemma toLowerCase_char_caseless:
  assumes "d \<in> set ''notumr''"
  shows "(toLowerCase_char c = d) = same_letter c d"
proof -
  from assms consider "d = CHR ''n''" | "d = CHR ''o''" | "d = CHR ''t''"
    | "d = CHR ''u''" | "d = CHR ''m''" | "d = CHR ''r''"
    by auto
  then show ?thesis
    by cases (simp_all only: toLowerCase_char_notumor same_letter_notumor)
qed

lemma toLowerCase_caseless:
  "set w \<subseteq> set ''notumr'' \<Longrightarrow> (toLowerCase p = w) = caseless_eq p w"
proof (induction p arbitrary: w)
  case Nil
  show ?case
    by (auto simp: toLowerCase_def caseless_eq_def)
next
  case (Cons c cs)
  show ?case
  proof (cases w)
    case Nil
    then show ?thesis
      by (simp add: toLowerCase_def caseless_eq_def)
  next
    case (Cons d ds)
    with Cons.prems have d: "d \<in> set ''notumr''" and ds: "set ds \<subseteq> set ''notumr''"
      by simp_all
    from Cons.IH [OF ds] have "(toLowerCase cs = ds) = caseless_eq cs ds" .
    with toLowerCase_char_caseless [OF d, of c] show ?thesis
      unfolding Cons by (simp add: toLowerCase_def caseless_eq_def)
  qed
qed

lemma toLowerCase_notumor: "(toLowerCase p = ''notumor'') = caseless_eq p ''notumor''"
  by (rule toLowerCase_caseless) simp

lemma caseless_eq_examples:
  "caseless_eq ''NoTumor'' ''notumor''"
  "caseless_eq ''NOTUMOR'' ''notumor''"
  "\<not> caseless_eq ''Glioma'' ''notumor''"
  "\<not> caseless_eq ''notumors'' ''notumor''"
  by (simp_all add: caseless_eq_def same_letter_def is_upper_def)

text \<open>
  C6, as worded, does not hold in its second half: the label is not displayed in its
  original casing. The label \<open>notumor\<close> is written as it is into the markup, in the
  paragraph styled \<open>text-transform: capitalize\<close>, and the user is shown \<open>Notumor\<close>.
\<close>

theorem painted_label_counterexample:
  "map_sum id resultsContent_innerHTML
       (showResults sample_engine (Some (JStr ''notumor'')) selected) =
     Inr (ResultDetails ''notumor'' ''fa-check-circle'' ''var(--success)'' ''notumor'') \<and>
   map_sum id (painted_label \<circ> resultsContent_innerHTML)
       (showResults sample_engine (Some (JStr ''notumor'')) selected) =
     Inr (Some ''Notumor'')"
  by (simp add: showResults_def toLowerCase_def toLowerCase_char_def painted_label_def
      one_word_def is_letter_def capitalize_def toUpperCase_char_def)

text \<open>
  C6, amended: for every label string \<open>showResults\<close> shows the results panel with the
  positive affordance (class \<open>notumor\<close>, the check icon, the success colour) exactly when
  the label equals \<open>notumor\<close> up to the case of its letters, and with the warning
  affordance (class \<open>tumor\<close>, the warning icon, the warning colour) otherwise. In both
  branches the label goes into the markup in its original casing, and a label that is
  one word of letters is painted capitalized: its first letter in upper case, the rest
  as given.
\<close>

theorem showResults_affordance:
  "showResults E (Some (JStr p)) s =
     Inr (s\<lparr>resultsContent_innerHTML :=
              (if caseless_eq p ''notumor''
               then ResultDetails ''notumor'' ''fa-check-circle'' ''var(--success)'' p
               else ResultDetails ''tumor'' ''fa-exclamation-triangle'' ''var(--warning)'' p),
            resultsCard_display := ''block''\<rparr>) \<and>
   (one_word p \<longrightarrow>
      map_sum id (painted_label \<circ> resultsContent_innerHTML) (showResults E (Some (JStr p)) s) =
        Inr (Some (capitalize p)))"
  by (simp add: showResults_def toLowerCase_notumor painted_label_def Let_def)

theorem showResults_affordance_witness:
  "one_word ''Glioma'' \<and>
   map_sum id resultsContent_innerHTML (showResults sample_engine (Some (JStr ''Glioma'')) selected) =
     Inr (ResultDetails ''tumor'' ''fa-exclamation-triangle'' ''var(--warning)'' ''Glioma'') \<and>
   map_sum id (painted_label \<circ> resultsContent_innerHTML)
       (showResults sample_engine (Some (JStr ''Glioma'')) selected) =
     Inr (Some ''Glioma'')"
proof -
  note t = showResults_affordance [of sample_engine "''Glioma''" selected]
  have w: "one_word ''Glioma''"
    by (simp add: one_word_def is_letter_def)
  have n: "\<not> caseless_eq ''Glioma'' ''notumor''"
    by (simp add: caseless_eq_def)
  have c: "capitalize ''Glioma'' = ''Glioma''"
    by (simp add: capitalize_def toUpperCase_char_def)
  from t [THEN conjunct1] n
  have a: "map_sum id resultsContent_innerHTML
      (showResults sample_engine (Some (JStr ''Glioma'')) selected) =
    Inr (ResultDetails ''tumor'' ''fa-exclamation-triangle'' ''var(--warning)'' ''Glioma'')"
    by simp
  from t [THEN conjunct2] w c
  have b: "map_sum id (painted_label \<circ> resultsContent_innerHTML)
      (showResults sample_engine (Some (JStr ''Glioma'')) selected) = Inr (Some ''Glioma'')"
    by simp
  from w a b show ?thesis
    by (intro conjI)
qed

lemma showResults_Glioma:
  "map_sum id resultsContent_innerHTML (showResults E (Some (JStr ''Glioma'')) s) =
     Inr (ResultDetails ''tumor'' ''fa-exclamation-triangle'' ''var(--warning)'' ''Glioma'')"
  by (simp add: showResults_def toLowerCase_def toLowerCase_char_def)

lemma showResults_NoTumor:
  "map_sum id resultsContent_innerHTML (showResults E (Some (JStr ''NoTumor'')) s) =
     Inr (ResultDetails ''notumor'' ''fa-check-circle'' ''var(--success)'' ''NoTumor'')"
  by (simp add: showResults_def toLowerCase_def toLowerCase_char_def)


section \<open>One analysis, run to its end\<close>

lemmas analyze_defs = analyzeFile_def analyzeFile_begin_def analyzeFile_fetched_def
  analyzeFile_parsed_def analyzeFile_delayed_def catch_finally_def

text \<open>
  \<open>analyzeFile\<close> is the event loop with nothing in between: the click, then the
  settling of each promise the call waits for.
\<close>

lemma analyzeFile_as_run:
  assumes "\<not> analyzeBtn_disabled s"
  shows "run E (ClickAnalyze # (if currentFile s = None then [] else settle outcome))
           \<lparr>page = s, calls = []\<rparr> =
         Some \<lparr>page = analyzeFile E outcome s, calls = []\<rparr>"
proof (cases "currentFile s")
  case None
  with assms show ?thesis
    by (simp add: step_def analyzeFile_def analyzeFile_begin_def)
next
  case (Some f)
  with assms show ?thesis
    by (auto simp: step_def settle_def analyzeFile_def analyzeFile_begin_def resume_def
        analyzeFile_fetched_def analyzeFile_parsed_def Let_def
        split: settled.splits)
qed

text \<open>
  C8: with no file selected \<open>analyzeFile\<close> adds the error notification (with its timer)
  and returns. Nothing else changes: no request is issued, and the progress indicator,
  the analyze button, the preview and the results are as before.
\<close>

theorem analyzeFile_without_file:
  "currentFile s = None \<Longrightarrow>
   analyzeFile E outcome s =
     s\<lparr>alertContainer := alertContainer s @
          [\<lparr>alert_id = nextAlert s, className = ''alert alert-error'',
            textContent = ''No file selected for analysis''\<rparr>],
       nextAlert := Suc (nextAlert s),
       timeouts := timeouts s @ [(5000, nextAlert s)]\<rparr> \<and>
   fetches (analyzeFile E outcome s) = fetches s \<and>
   progressContainer_display (analyzeFile E outcome s) = progressContainer_display s \<and>
   analyzeBtn_disabled (analyzeFile E outcome s) = analyzeBtn_disabled s \<and>
   filePreview_innerHTML (analyzeFile E outcome s) = filePreview_innerHTML s \<and>
   resultsCard_display (analyzeFile E outcome s) = resultsCard_display s \<and>
   analyzeFile_begin s = (analyzeFile E outcome s, None)"
  by (simp add: analyzeFile_def analyzeFile_begin_def showAlert_def)

theorem analyzeFile_without_file_witness:
  "currentFile (constructor blank_page) = None \<and>
   map textContent (alertContainer
       (analyzeFile sample_engine (Rejected ''Failed to fetch'') (constructor blank_page))) =
     [''No file selected for analysis''] \<and>
   fetches (analyzeFile sample_engine (Rejected ''Failed to fetch'') (constructor blank_page)) = [] \<and>
   progressContainer_display
       (analyzeFile sample_engine (Rejected ''Failed to fetch'') (constructor blank_page)) = ''none''"
proof -
  have h: "currentFile (constructor blank_page) = None"
    by (simp add: constructor_def)
  show ?thesis
    using h analyzeFile_without_file [OF h, of sample_engine "Rejected ''Failed to fetch''"]
    by (simp add: constructor_def blank_page_def)
qed

text \<open>
  C2: whatever \<open>fetch\<close> settles to (a rejection, a response that is not 2xx, a body that
  is not JSON, a body on which the rendering throws, or a prediction), a call of
  \<open>analyzeFile\<close> that found a file selected ends with the analyze button enabled.
\<close>

theorem analyzeFile_reenables_trigger:
  "currentFile s \<noteq> None \<Longrightarrow> \<not> analyzeBtn_disabled (analyzeFile E outcome s)"
  by (auto simp: analyze_defs small_defs showResults_def get_prop_def Let_def
      split: settled.splits json.splits option.splits sum.splits)

theorem analyzeFile_reenables_trigger_witness:
  "currentFile selected \<noteq> None \<and>
   analyzeBtn_disabled (fst (analyzeFile_begin selected)) \<and>
   \<not> analyzeBtn_disabled (analyzeFile sample_engine (Rejected ''Failed to fetch'') selected)"
proof -
  have h: "currentFile selected \<noteq> None"
    by (simp add: selected_file)
  have b: "analyzeBtn_disabled (fst (analyzeFile_begin selected))"
    by (simp add: analyzeFile_begin_def selected_file small_defs)
  show ?thesis
    using h b analyzeFile_reenables_trigger [OF h, of sample_engine "Rejected ''Failed to fetch''"]
    by simp
qed





subsection \<open>Calls interleaved with other handlers\<close>

text \<open>
  Other handlers may run while a call is suspended. Whatever ran in between, the step of
  the event loop that ends a call (the list of suspended calls gets shorter) hides the
  progress indicator, enables the analyze button and adds one notification: the success
  notification with the results panel shown, or an error notification with the results
  panel left as it was.
\<close>

lemma catch_finally_ended: "ended s (catch_finally m s)"
  by (simp add: ended_def catch_finally_def small_defs added_def)

lemma analyzeFile_delayed_ended: "ended s (analyzeFile_delayed E v s)"
  by (auto simp: ended_def analyzeFile_delayed_def catch_finally_def small_defs
      added_def showResults_def get_prop_def Let_def
      split: json.splits option.splits sum.splits)

lemma call_ends:
  assumes "step E e w = Some w'" and "length (calls w') < length (calls w)"
  shows "ended (page w) (page w')"
proof (cases e)
  case (FetchSettled i outcome)
  with assms show ?thesis
    by (auto simp: step_def resume_def analyzeFile_fetched_def catch_finally_ended
        split: if_splits await.splits settled.splits)
next
  case (JsonSettled i)
  with assms show ?thesis
    by (auto simp: step_def resume_def analyzeFile_parsed_def catch_finally_ended
        split: if_splits await.splits settled.splits)
next
  case (DelayElapsed i)
  with assms show ?thesis
    by (auto simp: step_def resume_def analyzeFile_delayed_ended split: if_splits await.splits)
qed (use assms in \<open>auto simp: step_def split: if_splits prod.splits option.splits\<close>)



section \<open>Responses that are not 2xx\<close>

text \<open>
  C5, as the specification words it, does not hold. On status 500 with the body
  \<open>{"error": "model unavailable"}\<close> the notification reads
  \<open>Analysis failed: model unavailable\<close>, the message behind a fixed prefix. On a body
  that is not JSON the text after the prefix is the message of the parser's exception,
  not the fixed fallback. On \<open>{"error": ""}\<close> the property is present and the fallback is
  shown all the same.
\<close>

theorem non_2xx_text_counterexample:
  "map textContent (alertContainer (analyzeFile sample_engine
       (reply 500 (JObj [(''error'', JStr ''model unavailable'')])) selected)) =
     [''Analysis failed: model unavailable''] \<and>
   map textContent (alertContainer (analyzeFile sample_engine
       (not_json 502 ''Unexpected token < in JSON at position 0'') selected)) =
     [''Analysis failed: Unexpected token < in JSON at position 0''] \<and>
   map textContent (alertContainer (analyzeFile sample_engine
       (reply 500 (JObj [(''error'', JStr [])])) selected)) =
     [''Analysis failed: Server error during analysis.'']"
  by (simp add: analyze_defs small_defs select_defs selected_def reply_def not_json_def ok_def
      get_prop_def server_error_def Error_message_def truthy_def blank_page_def scan_png_def)

text \<open>
  C5, amended: for every response that is not 2xx, a call of \<open>analyzeFile\<close> that found a
  file selected hides the progress indicator and adds one error notification, whose text
  is \<open>failure_text\<close>: the prefix \<open>Analysis failed: \<close> followed by the \<open>error\<close> property of
  the body when that is a string and not empty (by its string conversion when it is
  another truthy value), by \<open>Server error during analysis.\<close> when the body is JSON other
  than \<open>null\<close> and the property is absent or falsy, and by the message of the exception
  raised when the body is not JSON or is \<open>null\<close>.
\<close>

theorem analyzeFile_non_2xx_text:
  "currentFile s \<noteq> None \<Longrightarrow> \<not> ok r \<Longrightarrow>
   progressContainer_display (analyzeFile E (Resolved r) s) = ''none'' \<and>
   alertContainer (analyzeFile E (Resolved r) s) =
     alertContainer s @
       [\<lparr>alert_id = nextAlert s, className = ''alert alert-error'',
         textContent = failure_text E r\<rparr>]"
  by (auto simp: analyze_defs small_defs get_prop_def Let_def failure_text_def server_error_def
        Error_message_def truthy_def
      split: settled.splits json.splits option.splits sum.splits)

theorem analyzeFile_non_2xx_text_witness:
  "currentFile selected \<noteq> None \<and>
   \<not> ok \<lparr>status = 500, json_body = Resolved (JObj [(''error'', JStr ''model unavailable'')])\<rparr> \<and>
   progressContainer_display (analyzeFile sample_engine
       (Resolved \<lparr>status = 500,
          json_body = Resolved (JObj [(''error'', JStr ''model unavailable'')])\<rparr>) selected)
     = ''none'' \<and>
   alertContainer (analyzeFile sample_engine
       (Resolved \<lparr>status = 500,
          json_body = Resolved (JObj [(''error'', JStr ''model unavailable'')])\<rparr>) selected) =
     alertContainer selected @
       [\<lparr>alert_id = nextAlert selected, className = ''alert alert-error'',
         textContent = ''Analysis failed: model unavailable''\<rparr>]"
proof -
  have h: "currentFile selected \<noteq> None"
    by (simp add: selected_file)
  have n: "\<not> ok \<lparr>status = 500,
      json_body = Resolved (JObj [(''error'', JStr ''model unavailable'')])\<rparr>"
    by (simp add: ok_def)
  show ?thesis
    using h n analyzeFile_non_2xx_text [OF h n, of sample_engine]
    by (simp add: failure_text_def)
qed


section \<open>A 2xx response without a prediction\<close>





section \<open>Requests in flight\<close>

text \<open>
  The analyze button is what keeps a second call from starting: \<open>analyzeFile\<close> disables
  it before the request and enables it when the call ends. As long as no file is chosen
  or dropped while a call is suspended, at most one call is suspended and the button
  stays disabled for all of it.
\<close>

lemma begin_button:
  "analyzeFile_begin s = (s', a) \<Longrightarrow>
     (a = None \<and> analyzeBtn_disabled s' = analyzeBtn_disabled s) \<or>
     (a \<noteq> None \<and> analyzeBtn_disabled s')"
  by (auto simp: analyzeFile_begin_def small_defs Let_def split: option.splits)

lemma fetched_button:
  "analyzeFile_fetched outcome s = (s', a) \<Longrightarrow>
     a = None \<or> analyzeBtn_disabled s' = analyzeBtn_disabled s"
  by (auto simp: analyzeFile_fetched_def small_defs split: settled.splits)

lemma parsed_button:
  "analyzeFile_parsed E r s = (s', a) \<Longrightarrow>
     a = None \<or> analyzeBtn_disabled s' = analyzeBtn_disabled s"
  by (auto simp: analyzeFile_parsed_def small_defs split: settled.splits if_splits)

lemma step_one_call:
  assumes "step E e w = Some w'" and "one_call w" and "selects e \<Longrightarrow> calls w = []"
  shows "one_call w'"
proof (cases e)
  case (Change files)
  with assms show ?thesis by (auto simp: step_def one_call_def selects_def)
next
  case (Drop files)
  with assms show ?thesis by (auto simp: step_def one_call_def selects_def)
next
  case ClickRemove
  with assms show ?thesis by (auto simp: step_def one_call_def removeFile_def small_defs)
next
  case ClickAnalyze
  with assms show ?thesis
    by (auto simp: step_def one_call_def
        split: if_splits prod.splits option.splits dest: begin_button)
next
  case (FetchSettled i outcome)
  with assms show ?thesis
    by (auto simp: step_def one_call_def resume_def length_Suc_conv
        split: if_splits prod.splits option.splits await.splits dest: fetched_button)
next
  case (JsonSettled i)
  with assms show ?thesis
    by (auto simp: step_def one_call_def resume_def length_Suc_conv
        split: if_splits prod.splits option.splits await.splits dest: parsed_button)
next
  case (DelayElapsed i)
  with assms show ?thesis
    by (auto simp: step_def one_call_def resume_def length_Suc_conv
        split: if_splits prod.splits option.splits await.splits)
next
  case (ReaderLoaded f)
  with assms show ?thesis
    by (auto simp: step_def one_call_def reader_onload_def split: if_splits)
next
  case (TimeoutFired a)
  with assms show ?thesis
    by (auto simp: step_def one_call_def timeout_fires_def split: if_splits)
qed (use assms in \<open>auto simp: step_def one_call_def handleDragOver_def handleDragLeave_def\<close>)

lemma run_one_call:
  "run E es w = Some w' \<Longrightarrow> one_call w \<Longrightarrow> undisturbed E es w \<Longrightarrow> one_call w'"
proof (induction es arbitrary: w)
  case Nil
  then show ?case by simp
next
  case (Cons e es)
  from Cons.prems(1) obtain w1 where s: "step E e w = Some w1" and r: "run E es w1 = Some w'"
    by (auto split: option.splits)
  from Cons.prems(3) s have u: "undisturbed E es w1" and q: "selects e \<Longrightarrow> calls w = []"
    by auto
  from s Cons.prems(2) q have "one_call w1"
    by (rule step_one_call)
  from r this u show ?case
    by (rule Cons.IH)
qed

lemma undisturbed_in_flight:
  assumes "run E es (loaded pg) = Some w'" and "undisturbed E es (loaded pg)"
  shows "in_flight w' \<le> 1"
proof -
  have "one_call (loaded pg)"
    by (simp add: one_call_def loaded_def)
  with assms have "one_call w'"
    by (blast intro: run_one_call)
  moreover have "in_flight w' \<le> length (calls w')"
    by (simp add: in_flight_def)
  ultimately show ?thesis
    by (auto simp: one_call_def)
qed

text \<open>
  C9: the code breaks the claim. \<open>processFile\<close> enables the analyze button whenever it
  accepts a file, also while a call is suspended. A file is chosen and analysed; before
  the response arrives a file is chosen again, which enables the button, and the next
  click issues a second request: two requests are in flight.
\<close>

theorem second_request_while_in_flight:
  "map_option (\<lambda>w. (in_flight w, analyzeBtn_disabled (page w)))
     (run sample_engine [Change [scan_png], ClickAnalyze] (loaded blank_page)) =
     Some (1, True) \<and>
   map_option (\<lambda>w. (in_flight w, analyzeBtn_disabled (page w)))
     (run sample_engine [Change [scan_png], ClickAnalyze, Change [scan_png]] (loaded blank_page)) =
     Some (1, False) \<and>
   map_option (\<lambda>w. (in_flight w, length (fetches (page w))))
     (run sample_engine [Change [scan_png], ClickAnalyze, Change [scan_png], ClickAnalyze]
       (loaded blank_page)) =
     Some (2, 2)"
  by (simp add: step_def loaded_def in_flight_def handleFileSelect_def select_defs small_defs
      analyzeFile_begin_def scan_png_def blank_page_def)

end
